theory Spec2Isabelle
  imports Complex_Main
begin

section \<open>Raster delineation inside one unit catchment\<close>

text \<open>
  A shallow embedding of \<^verbatim>\<open>merit_detailed.py\<close> (get_subdivided_merit_polygon) and
  of \<^verbatim>\<open>fast_dissolve.py\<close> (close_holes). Coordinates, areas and distances are
  real numbers, and a float operation is read as the exact operation, with one
  exception: the aligned window of lines 89-105 takes the floor and the ceiling of
  rounded products, where a rounding error of one unit in the last place moves a bound
  by a whole pixel, so there every operation is rounded to an IEEE double.
\<close>

subsection \<open>Errors\<close>

text \<open>
  A Python exception is its class name and its message. The source itself raises
  \<^verbatim>\<open>Exception(...)\<close> twice; the other classes below escape from indexing and from
  numpy/pysheds calls that the source does not guard.
\<close>

datatype error = Raise (exc_class: string) (exc_msg: string)

text \<open>Indexing a Python list out of range (lines 99, 307 and 317).\<close>

definition IndexError :: error where
  "IndexError = Raise ''IndexError'' ''list index out of range''"

text \<open>Indexing row 0 of a numpy array that has no row (inside the snap of line 236).\<close>

definition IndexError_numpy :: error where
  "IndexError_numpy =
     Raise ''IndexError'' ''index 0 is out of bounds for axis 0 with size 0''"

definition ValueError :: error where
  "ValueError = Raise ''ValueError'' ''attempt to get argmax of an empty sequence''"

subsection \<open>Vector geometry (shapely)\<close>

type_synonym point = "real \<times> real"
type_synonym ring = "point list"

record polygon =
  exterior :: ring
  interiors :: "ring list"

datatype geometry = Polygon polygon | MultiPolygon "polygon list"

text \<open>
  \<^verbatim>\<open>Polygon(ring).area\<close>: the absolute value of the shoelace sum over consecutive
  vertices, the last vertex joined to the first (a ring that repeats its first vertex at
  the end adds a zero term there).
\<close>

definition ring_area :: "ring \<Rightarrow> real" where
  "ring_area r =
     \<bar>sum_list (map (\<lambda>((x1, y1), (x2, y2)). x1 * y2 - x2 * y1) (zip r (rotate1 r)))\<bar> / 2"

text \<open>\<^verbatim>\<open>polygon.area\<close>: the shell's area less the area of every hole.\<close>

definition area :: "polygon \<Rightarrow> real" where
  "area p = ring_area (exterior p) - sum_list (map ring_area (interiors p))"

text \<open>
  \<^verbatim>\<open>np.argmax\<close> over a Python list: the index of the first occurrence of the maximum;
  ValueError on an empty list. The scan keeps the best index so far and replaces it
  only by a strictly larger value.
\<close>

fun argmax_from :: "nat \<Rightarrow> real \<Rightarrow> nat \<Rightarrow> real list \<Rightarrow> nat" where
  "argmax_from best bv i [] = best"
| "argmax_from best bv i (x # xs) =
     (if bv < x then argmax_from i x (Suc i) xs else argmax_from best bv (Suc i) xs)"

definition argmax :: "real list \<Rightarrow> error + nat" where
  "argmax xs = (case xs of [] \<Rightarrow> Inl ValueError | x # rest \<Rightarrow> Inr (argmax_from 0 x 1 rest))"

text \<open>
  merit_detailed.py lines 74-78 and fast_dissolve.py lines 48-52 (the same statements in
  both files): a Polygon passes through, a MultiPolygon is replaced by the part at
  \<^verbatim>\<open>np.argmax\<close> of the parts' areas.
\<close>

definition largest_part :: "geometry \<Rightarrow> error + polygon" where
  "largest_part g =
     (case g of
        Polygon p \<Rightarrow> Inr p
      | MultiPolygon Polygons_multi \<Rightarrow>
          (case argmax (map area Polygons_multi) of
             Inl e \<Rightarrow> Inl e
           | Inr k \<Rightarrow> Inr (Polygons_multi ! k)))"

subsection \<open>fast_dissolve.py: close_holes\<close>

text \<open>The loop of lines 62-67: the interiors whose area exceeds area_max, in order.\<close>

fun keep_interiors :: "real \<Rightarrow> ring list \<Rightarrow> ring list \<Rightarrow> ring list" where
  "keep_interiors area_max [] list_interiors = list_interiors"
| "keep_interiors area_max (interior # rest) list_interiors =
     (if ring_area interior > area_max
      then keep_interiors area_max rest (list_interiors @ [interior])
      else keep_interiors area_max rest list_interiors)"

definition close_holes :: "geometry \<Rightarrow> real \<Rightarrow> error + polygon" where
  "close_holes poly0 area_max =
     (case largest_part poly0 of
        Inl e \<Rightarrow> Inl e
      | Inr poly \<Rightarrow>
          if area_max = 0 then
            (if interiors poly \<noteq> [] then Inr \<lparr>exterior = exterior poly, interiors = []\<rparr>
             else Inr poly)
          else
            Inr \<lparr>exterior = exterior poly,
                 interiors = keep_interiors area_max (interiors poly) []\<rparr>)"

subsection \<open>merit_detailed.py: the aligned window\<close>

type_synonym bbox = "real \<times> real \<times> real \<times> real"

text \<open>Line 90. The literal is the source's; it is not 1/1200.\<close>

definition halfpix :: real where
  "halfpix = 0.0008333333335070341758 / 2"

text \<open>
  IEEE 754 binary64 with rounding to nearest, ties to even: \<open>fl x\<close> is the double
  nearest to the real \<open>x\<close>. The significand has 53 bits, so in the binade
  \<open>2^e \<le> |x| < 2^(e+1)\<close> the doubles are the multiples of \<open>2^(e - 52)\<close>; below
  \<open>2^(-1022)\<close> the spacing stays \<open>2^(-1074)\<close>. Overflow to infinity and NaN are not
  modelled: the values here are degrees and degrees times 1200.
\<close>

definition pow2 :: "int \<Rightarrow> real" where
  "pow2 k = (if 0 \<le> k then 2 ^ nat k else 1 / 2 ^ nat (- k))"

definition round_half_even :: "real \<Rightarrow> int" where
  "round_half_even y =
     (let f = \<lfloor>y\<rfloor>; d = y - of_int f
      in if d < 1 / 2 then f else if 1 / 2 < d then f + 1 else if even f then f else f + 1)"

definition binade :: "real \<Rightarrow> int" where
  "binade x = max \<lfloor>log 2 \<bar>x\<bar>\<rfloor> (- 1022)"

definition fl :: "real \<Rightarrow> real" where
  "fl x =
     (if x = 0 then 0
      else of_int (round_half_even (x / pow2 (binade x - 52))) * pow2 (binade x - 52))"

text \<open>
  Lines 82-105: the bounds become a list, its four entries are overwritten in turn,
  and the list becomes a tuple again. Each entry is a double; the product with 1200,
  the quotient by 1200 and the sum or difference with the half pixel are each rounded,
  \<^verbatim>\<open>np.floor\<close> and \<^verbatim>\<open>np.ceil\<close> are exact. The double that Python holds for the
  name \<^verbatim>\<open>halfpix\<close> is \<open>fl halfpix\<close>: the literal is rounded and halving is exact.
\<close>

definition bounding_box :: "bbox \<Rightarrow> bbox" where
  "bounding_box bounds =
     (case bounds of (xmin, ymin, xmax, ymax) \<Rightarrow>
        let bounds_list = [xmin, ymin, xmax, ymax];
            bounds_list = bounds_list[0 :=
              fl (fl (of_int \<lfloor>fl (bounds_list ! 0 * 1200)\<rfloor> / 1200) - fl halfpix)];
            bounds_list = bounds_list[1 :=
              fl (fl (of_int \<lfloor>fl (bounds_list ! 1 * 1200)\<rfloor> / 1200) - fl halfpix)];
            bounds_list = bounds_list[2 :=
              fl (fl (of_int \<lceil>fl (bounds_list ! 2 * 1200)\<rceil> / 1200) + fl halfpix)];
            bounds_list = bounds_list[3 :=
              fl (fl (of_int \<lceil>fl (bounds_list ! 3 * 1200)\<rceil> / 1200) + fl halfpix)]
        in (bounds_list ! 0, bounds_list ! 1, bounds_list ! 2, bounds_list ! 3))"

text \<open>
  \<^verbatim>\<open>catchment_poly.bounds\<close>: (minx, miny, maxx, maxy) over the shell's vertices. An
  empty polygon has the empty tuple as bounds, and line 99 then fails on index 0.
\<close>

definition bounds :: "polygon \<Rightarrow> error + bbox" where
  "bounds p =
     (case exterior p of
        [] \<Rightarrow> Inl IndexError
      | (x, y) # ps \<Rightarrow>
          Inr (fold min (map fst ps) x, fold min (map snd ps) y,
               fold max (map fst ps) x, fold max (map snd ps) y))"

subsection \<open>Grids (pysheds)\<close>

text \<open>
  A numpy array of shape (m, n) is read and written at indices i < m, j < n only, so it
  is a function on indices; the shape is kept by the grid that owns the array.
\<close>

type_synonym 'a array = "nat \<Rightarrow> nat \<Rightarrow> 'a"

text \<open>\<^verbatim>\<open>Affine(a, b, c, d, e, f)\<close> maps (col, row) to (a*col + b*row + c, d*col + e*row + f).\<close>

datatype affine = Affine real real real real real real

fun affine_apply :: "affine \<Rightarrow> real \<times> real \<Rightarrow> point" where
  "affine_apply (Affine a b c d e f) (col, row) = (a * col + b * row + c, d * col + e * row + f)"

text \<open>
  The state of the pysheds Grid object: its shape and transform, and the datasets
  the source attaches to it by name.
\<close>

record grid =
  shape :: "nat \<times> nat"
  affine :: affine
  fdir :: "int array"
  mymask :: "int array"
  acc :: "int array"

record catch_grid = grid +
  catch :: "int array"

text \<open>
  Lines 194-198, the two nested \<^verbatim>\<open>for\<close> loops over \<^verbatim>\<open>range(0, m)\<close> and
  \<^verbatim>\<open>range(0, n)\<close>, writing 0 into \<^verbatim>\<open>grid.acc[i, j]\<close> where the mask cell is 0.
\<close>

definition mask_cell :: "int array \<Rightarrow> nat \<Rightarrow> nat \<Rightarrow> int array \<Rightarrow> int array" where
  "mask_cell msk i j ac = (if msk i j = 0 then ac(i := (ac i)(j := 0)) else ac)"

definition mask_accumulation :: "grid \<Rightarrow> grid" where
  "mask_accumulation g =
     (case shape g of (m, n) \<Rightarrow>
        g\<lparr>acc := fold (\<lambda>i ac. fold (\<lambda>j ac. mask_cell (mymask g) i j ac) [0..<n] ac)
                       [0..<m] (acc g)\<rparr>)"

text \<open>Lines 223-228 and 234.\<close>

definition numpixels :: "bool \<Rightarrow> int" where
  "numpixels bSingleCatchment = (if bSingleCatchment then 50 else 2000)"

definition streams :: "grid \<Rightarrow> int \<Rightarrow> bool array" where
  "streams g npix = (\<lambda>i j. acc g i j > npix)"

text \<open>
  \<^verbatim>\<open>grid.snap_to_mask(mask, xy)\<close> of pysheds: the True cells of the mask in row-major
  order (\<^verbatim>\<open>np.where(mask.ravel())\<close>), their coordinates \<^verbatim>\<open>affine * (xi, yi)\<close>, a
  nearest-neighbour query on them under the Euclidean distance, and the pair of the
  nearest coordinate and its distance. With no True cell the query has nothing to
  return and indexing the empty coordinate table fails: the library raises numpy's
  IndexError, which line 236 does not catch. Among equidistant cells this model takes
  the first in row-major order; no statement below depends on that choice.
\<close>

definition mask_ix :: "nat \<times> nat \<Rightarrow> bool array \<Rightarrow> (nat \<times> nat) list" where
  "mask_ix sh msk =
     (case sh of (m, n) \<Rightarrow>
        concat (map (\<lambda>i. map (\<lambda>j. (i, j)) (filter (msk i) [0..<n])) [0..<m]))"

definition cell_xy :: "affine \<Rightarrow> nat \<times> nat \<Rightarrow> point" where
  "cell_xy aff cell = (case cell of (yi, xi) \<Rightarrow> affine_apply aff (real xi, real yi))"

definition dist :: "point \<Rightarrow> point \<Rightarrow> real" where
  "dist p q = sqrt ((fst p - fst q)\<^sup>2 + (snd p - snd q)\<^sup>2)"

fun nearest :: "affine \<Rightarrow> point \<Rightarrow> nat \<times> nat \<Rightarrow> (nat \<times> nat) list \<Rightarrow> nat \<times> nat" where
  "nearest aff xy best [] = best"
| "nearest aff xy best (c # cs) =
     (if dist xy (cell_xy aff c) < dist xy (cell_xy aff best)
      then nearest aff xy c cs else nearest aff xy best cs)"

definition nearest_cell :: "grid \<Rightarrow> bool array \<Rightarrow> point \<Rightarrow> error + (nat \<times> nat)" where
  "nearest_cell g msk xy =
     (case mask_ix (shape g) msk of
        [] \<Rightarrow> Inl IndexError_numpy
      | c # cs \<Rightarrow> Inr (nearest (affine g) xy c cs))"

definition snap_to_mask :: "grid \<Rightarrow> bool array \<Rightarrow> point \<Rightarrow> error + (point \<times> real)" where
  "snap_to_mask g msk xy =
     (case nearest_cell g msk xy of
        Inl e \<Rightarrow> Inl e
      | Inr cell \<Rightarrow> Inr (cell_xy (affine g) cell, dist xy (cell_xy (affine g) cell)))"

subsection \<open>The surroundings of the call\<close>

text \<open>
  What the function takes from outside its own text: the constants of the config
  module, the file system, and the pysheds and shapely calls whose results depend on
  the raster files. The calls outside the \<^verbatim>\<open>try\<close> block are total here; the three
  calls inside it may raise. VERBOSE and PLOTS only print and draw.
\<close>

type_synonym shape = "ring list \<times> int"

record env =
  MERIT_FDIR_DIR :: string
  MERIT_ACCUM_DIR :: string
  isfile :: "string \<Rightarrow> bool"
  from_raster :: "string \<Rightarrow> bbox \<Rightarrow> (nat \<times> nat) \<times> affine \<times> int array"
  rasterize :: "nat \<times> nat \<Rightarrow> affine \<Rightarrow> polygon list \<Rightarrow> int array"
  read_raster :: "string \<Rightarrow> bbox \<Rightarrow> int array"
  clip_to_mymask :: "grid \<Rightarrow> grid"
  catchment :: "grid \<Rightarrow> real \<Rightarrow> real \<Rightarrow> int list \<Rightarrow> nat \<Rightarrow> error + catch_grid"
  clip_to_catch :: "catch_grid \<Rightarrow> error + catch_grid"
  view_catch :: "catch_grid \<Rightarrow> error + int array"
  polygonize :: "catch_grid \<Rightarrow> shape list"
  unary_union :: "polygon list \<Rightarrow> geometry"

text \<open>\<^verbatim>\<open>"{}".format(basin)\<close> for an int: decimal digits, a minus sign when negative.\<close>

fun str_nat :: "nat \<Rightarrow> string" where
  "str_nat n =
     (if n < 10 then [''0123456789'' ! n]
      else str_nat (n div 10) @ [''0123456789'' ! (n mod 10)])"

declare str_nat.simps [simp del]

definition str_int :: "int \<Rightarrow> string" where
  "str_int k = (if k < 0 then CHR ''-'' # str_nat (nat (- k)) else str_nat (nat k))"

definition dirmap :: "int list" where
  "dirmap = [64, 128, 1, 2, 4, 8, 16, 32]"

subsection \<open>get_subdivided_merit_polygon\<close>

text \<open>
  Lines 72-198: the largest part, the aligned window, the two rasters, the mask of the
  exterior ring, and the masked accumulation. The result is the grid as it stands
  before line 223. The WKB round trip of lines 128-129 gives back the polygon it was
  given, so \<open>filled_poly\<close> is built from the exterior of \<open>catchment_poly\<close>.
\<close>

definition masked_grid :: "env \<Rightarrow> int \<Rightarrow> geometry \<Rightarrow> error + grid" where
  "masked_grid env basin catchment_poly0 =
     (case largest_part catchment_poly0 of
        Inl e \<Rightarrow> Inl e
      | Inr catchment_poly \<Rightarrow>
     (case bounds catchment_poly of
        Inl e \<Rightarrow> Inl e
      | Inr bnds \<Rightarrow>
     (let bbx = bounding_box bnds;
          fdir_fname = MERIT_FDIR_DIR env @ ''/flowdir'' @ str_int basin @ ''.tif''
      in if \<not> isfile env fdir_fname
         then Inl (Raise ''Exception''
                     (''Could not find flow flow direction raster: '' @ fdir_fname))
         else
     (case from_raster env fdir_fname bbx of (sh, aff, fd) \<Rightarrow>
      let filled_poly = \<lparr>exterior = exterior catchment_poly, interiors = []\<rparr>;
          multi_poly = [filled_poly];
          mymask = rasterize env sh aff multi_poly;
          accum_fname = MERIT_ACCUM_DIR env @ ''/accum'' @ str_int basin @ ''.tif''
      in if \<not> isfile env accum_fname
         then Inl (Raise ''Exception'' (''Could not find accumulation raster: '' @ accum_fname))
         else
           let ac = read_raster env accum_fname bbx;
               g = clip_to_mymask env
                     \<lparr>shape = sh, affine = aff, fdir = fd, mymask = mymask, acc = ac\<rparr>
           in Inr (mask_accumulation g)))))"

text \<open>Lines 223-236: the threshold, the stream cells, the snap.\<close>

definition snap_pour_point :: "grid \<Rightarrow> real \<Rightarrow> real \<Rightarrow> bool \<Rightarrow> error + (point \<times> real)" where
  "snap_pour_point g lat lng bSingleCatchment =
     snap_to_mask g (streams g (numpixels bSingleCatchment)) (lng, lat)"

text \<open>Lines 241-253, the body of the \<^verbatim>\<open>try\<close>.\<close>

definition try_catchment :: "env \<Rightarrow> grid \<Rightarrow> real \<Rightarrow> real \<Rightarrow> error + catch_grid" where
  "try_catchment env g lng_snap lat_snap =
     (case catchment env g lng_snap lat_snap dirmap 15000 of
        Inl e \<Rightarrow> Inl e
      | Inr cg \<Rightarrow>
     (case clip_to_catch env cg of
        Inl e \<Rightarrow> Inl e
      | Inr cg' \<Rightarrow>
     (case view_catch env cg' of
        Inl e \<Rightarrow> Inl e
      | Inr clipped_catch \<Rightarrow> Inr cg')))"

text \<open>
  Lines 300-308, the loop over the shapes: each shape's first ring becomes a polygon,
  appended to the list, and the counter goes up by one. A shape with no ring fails on
  \<^verbatim>\<open>['coordinates'][0]\<close>.
\<close>

fun collect_shapes :: "shape list \<Rightarrow> polygon list \<Rightarrow> nat \<Rightarrow> error + (polygon list \<times> nat)" where
  "collect_shapes [] shapely_polygons shape_count = Inr (shapely_polygons, shape_count)"
| "collect_shapes ((coordinates, v) # rest) shapely_polygons shape_count =
     (case coordinates of
        [] \<Rightarrow> Inl IndexError
      | r # _ \<Rightarrow>
          collect_shapes rest
            (shapely_polygons @ [\<lparr>exterior = r, interiors = []\<rparr>]) (shape_count + 1))"

text \<open>Lines 275-317: polygonize, nudge, collect, and the two return statements.\<close>

definition polygonize_and_return ::
    "env \<Rightarrow> catch_grid \<Rightarrow> real \<Rightarrow> real \<Rightarrow> error + (geometry option \<times> real \<times> real)" where
  "polygonize_and_return env cg lng_snap0 lat_snap0 =
     (let shapes = polygonize env cg;
          lng_snap = lng_snap0 + halfpix;
          lat_snap = lat_snap0 - halfpix
      in case collect_shapes shapes [] 0 of
           Inl e \<Rightarrow> Inl e
         | Inr (shapely_polygons, shape_count) \<Rightarrow>
             if shape_count > 1
             then Inr (Some (unary_union env shapely_polygons), lat_snap, lng_snap)
             else (case shapely_polygons of
                     [] \<Rightarrow> Inl IndexError
                   | p # _ \<Rightarrow> Inr (Some (Polygon p), lat_snap, lng_snap)))"

text \<open>
  The whole function. Its result is the returned 3-tuple, \<^verbatim>\<open>None\<close> being
  \<open>None\<close>, or the exception that leaves the call. The bare \<^verbatim>\<open>except:\<close> of line 254
  turns every exception of the \<^verbatim>\<open>try\<close> body into the return of line 256.
\<close>

definition get_subdivided_merit_polygon ::
    "env \<Rightarrow> string \<Rightarrow> int \<Rightarrow> real \<Rightarrow> real \<Rightarrow> geometry \<Rightarrow> bool
       \<Rightarrow> error + (geometry option \<times> real \<times> real)" where
  "get_subdivided_merit_polygon env wid basin lat lng catchment_poly bSingleCatchment =
     (case masked_grid env basin catchment_poly of
        Inl e \<Rightarrow> Inl e
      | Inr g \<Rightarrow>
     (case snap_pour_point g lat lng bSingleCatchment of
        Inl e \<Rightarrow> Inl e
      | Inr ((lng_snap, lat_snap), d) \<Rightarrow>
     (case try_catchment env g lng_snap lat_snap of
        Inl e \<Rightarrow> Inr (None, lng_snap, lat_snap)
      | Inr cg \<Rightarrow> polygonize_and_return env cg lng_snap lat_snap)))"

subsection \<open>A rasterizer and a small surrounding, for concrete calls\<close>

text \<open>
  The rule rasterio applies by default (\<^verbatim>\<open>all_touched=False\<close>): a cell is burned
  when its centre lies inside one of the polygons. Inside is decided by counting the
  edges that a ray from the point to the right crosses.
\<close>

definition edge_crosses :: "point \<Rightarrow> point \<times> point \<Rightarrow> bool" where
  "edge_crosses p e =
     (case p of (px, py) \<Rightarrow> case e of ((x1, y1), (x2, y2)) \<Rightarrow>
        (py < y1) \<noteq> (py < y2) \<and> px < (x2 - x1) * (py - y1) / (y2 - y1) + x1)"

definition point_in_ring :: "point \<Rightarrow> ring \<Rightarrow> bool" where
  "point_in_ring p r = odd (length (filter (edge_crosses p) (zip r (rotate1 r))))"

definition point_in_polygon :: "point \<Rightarrow> polygon \<Rightarrow> bool" where
  "point_in_polygon p poly =
     (point_in_ring p (exterior poly) \<and> \<not> list_ex (point_in_ring p) (interiors poly))"

definition cell_centre :: "affine \<Rightarrow> nat \<times> nat \<Rightarrow> point" where
  "cell_centre aff cell =
     (case cell of (yi, xi) \<Rightarrow> affine_apply aff (real xi + 1 / 2, real yi + 1 / 2))"

definition rasterize_centres :: "nat \<times> nat \<Rightarrow> affine \<Rightarrow> polygon list \<Rightarrow> int array" where
  "rasterize_centres sh aff polys =
     (\<lambda>i j. if list_ex (point_in_polygon (cell_centre aff (i, j))) polys then 1 else 0)"

text \<open>
  A unit catchment of 5 by 5 cells with a 3 by 3 hole, and a one-cell island inside
  the hole; coordinates in degrees, one cell being 1/1200 of a degree.
\<close>

definition example_part_A :: polygon where
  "example_part_A =
     \<lparr>exterior = [(0, 0), (5 / 1200, 0), (5 / 1200, 5 / 1200), (0, 5 / 1200), (0, 0)],
      interiors = [[(1 / 1200, 1 / 1200), (1 / 1200, 4 / 1200), (4 / 1200, 4 / 1200),
                    (4 / 1200, 1 / 1200), (1 / 1200, 1 / 1200)]]\<rparr>"

definition example_part_B :: polygon where
  "example_part_B =
     \<lparr>exterior = [(2 / 1200, 2 / 1200), (3 / 1200, 2 / 1200), (3 / 1200, 3 / 1200),
                  (2 / 1200, 3 / 1200), (2 / 1200, 2 / 1200)],
      interiors = []\<rparr>"

definition example_shape :: shape where
  "example_shape =
     ([[(2 / 1200, 0), (3 / 1200, 0), (3 / 1200, 5 / 1200), (2 / 1200, 5 / 1200),
        (2 / 1200, 0)]], 1)"

text \<open>
  A surrounding chosen for its small numbers, not one that pysheds produces from a
  MERIT raster: both rasters exist, and whatever the window, the grid has 5 by 5 cells
  whose corners are the corners of \<open>example_part_A\<close>; a stream runs down column 2,
  gaining 1000 cells of accumulation per row; the traversal marks that column, and
  polygonizing gives one shape. The general theorems hold for every surrounding; the
  coordinates in the closed instances below are those of this one.
\<close>

definition example_env :: env where
  "example_env =
     \<lparr>MERIT_FDIR_DIR = ''data/raster/flowdir_basins'',
      MERIT_ACCUM_DIR = ''data/raster/accum_basins'',
      isfile = (\<lambda>fname. True),
      from_raster = (\<lambda>fname bbx.
         ((5, 5), Affine (1 / 1200) 0 0 0 (- (1 / 1200)) (5 / 1200), (\<lambda>i j. 4))),
      rasterize = rasterize_centres,
      read_raster = (\<lambda>fname bbx. (\<lambda>i j. if j = 2 then 1000 * (int i + 1) else 1)),
      clip_to_mymask = (\<lambda>g. g),
      catchment = (\<lambda>g x y dm rl.
         Inr \<lparr>shape = shape g, affine = affine g, fdir = fdir g, mymask = mymask g,
              acc = acc g, catch = (\<lambda>i j. if j = 2 then 1 else 0)\<rparr>),
      clip_to_catch = Inr,
      view_catch = (\<lambda>cg. Inr (catch cg)),
      polygonize = (\<lambda>cg. [example_shape]),
      unary_union = MultiPolygon\<rparr>"

text \<open>The same surrounding with a traversal that raises.\<close>

definition example_env_failing :: env where
  "example_env_failing =
     example_env\<lparr>catchment := (\<lambda>g x y dm rl.
        Inl (Raise ''RecursionError'' ''maximum recursion depth exceeded''))\<rparr>"

text \<open>The same surrounding with an accumulation raster that holds no stream.\<close>

definition example_env_dry :: env where
  "example_env_dry = example_env\<lparr>read_raster := (\<lambda>fname bbx. (\<lambda>i j. 1))\<rparr>"

text \<open>The same surrounding with a polygonizer that finds no shape.\<close>

definition example_env_no_shapes :: env where
  "example_env_no_shapes = example_env\<lparr>polygonize := (\<lambda>cg. [])\<rparr>"

text \<open>
  A 2 by 2 grid whose cell (0, 0) lies outside the mask and holds the largest
  accumulation of the window.
\<close>

definition example_grid :: grid where
  "example_grid =
     \<lparr>shape = (2, 2),
      affine = Affine (1 / 1200) 0 0 0 (- (1 / 1200)) (2 / 1200),
      fdir = (\<lambda>i j. 4),
      mymask = (\<lambda>i j. if i = 0 \<and> j = 0 then 0 else 1),
      acc = (\<lambda>i j. if i = 0 \<and> j = 0 then 9000 else if i = 1 \<and> j = 1 then 3000
                     else if i = 0 \<and> j = 1 then 100 else 1)\<rparr>"

text \<open>
  The grid that the example surrounding holds at line 194 for the catchment
  \<open>example_part_A\<close>, and the same grid over the raster without a stream.
\<close>

definition example_window :: grid where
  "example_window =
     \<lparr>shape = (5, 5),
      affine = Affine (1 / 1200) 0 0 0 (- (1 / 1200)) (5 / 1200),
      fdir = (\<lambda>i j. 4),
      mymask = rasterize_centres (5, 5) (Affine (1 / 1200) 0 0 0 (- (1 / 1200)) (5 / 1200))
                 [\<lparr>exterior = exterior example_part_A, interiors = []\<rparr>],
      acc = (\<lambda>i j. if j = 2 then 1000 * (int i + 1) else 1)\<rparr>"

definition example_window_dry :: grid where
  "example_window_dry = example_window\<lparr>acc := (\<lambda>i j. 1)\<rparr>"

section \<open>Properties\<close>

subsection \<open>The scans and the loops\<close>

lemma argmax_from_scan:
  assumes "length pre = i" "best < i" "pre ! best = bv"
    and "\<forall>j<i. pre ! j \<le> bv" "\<forall>j<best. pre ! j < bv"
  shows "argmax_from best bv i xs < length (pre @ xs)
       \<and> (\<forall>j<length (pre @ xs). (pre @ xs) ! j \<le> (pre @ xs) ! argmax_from best bv i xs)
       \<and> (\<forall>j<argmax_from best bv i xs. (pre @ xs) ! j < (pre @ xs) ! argmax_from best bv i xs)"
  using assms
proof (induction xs arbitrary: best bv i pre)
  case Nil
  then show ?case by simp
next
  case (Cons x xs)
  show ?case
  proof (cases "bv < x")
    case True
    have a: "length (pre @ [x]) = Suc i" using Cons.prems by simp
    have b: "i < Suc i" by simp
    have c: "(pre @ [x]) ! i = x" using Cons.prems by (simp add: nth_append)
    have d: "\<forall>j<Suc i. (pre @ [x]) ! j \<le> x"
      using Cons.prems True by (auto simp: nth_append less_Suc_eq)
    have e: "\<forall>j<i. (pre @ [x]) ! j < x"
      using Cons.prems True by (auto simp: nth_append intro: le_less_trans)
    from Cons.IH[OF a b c d e] True show ?thesis by simp
  next
    case False
    have a: "length (pre @ [x]) = Suc i" using Cons.prems by simp
    have b: "best < Suc i" using Cons.prems by simp
    have c: "(pre @ [x]) ! best = bv" using Cons.prems by (simp add: nth_append)
    have d: "\<forall>j<Suc i. (pre @ [x]) ! j \<le> bv"
      using Cons.prems False by (auto simp: nth_append less_Suc_eq)
    have e: "\<forall>j<best. (pre @ [x]) ! j < bv"
      using Cons.prems by (auto simp: nth_append)
    from Cons.IH[OF a b c d e] False show ?thesis by simp
  qed
qed

lemma argmax_first_maximum:
  assumes "xs \<noteq> []"
  shows "\<exists>k. argmax xs = Inr k \<and> k < length xs \<and> (\<forall>j<length xs. xs ! j \<le> xs ! k)
           \<and> (\<forall>j<k. xs ! j < xs ! k)"
proof -
  from assms obtain x rest where xs: "xs = x # rest" by (cases xs) auto
  have "argmax_from 0 x 1 rest < length ([x] @ rest)
       \<and> (\<forall>j<length ([x] @ rest). ([x] @ rest) ! j \<le> ([x] @ rest) ! argmax_from 0 x 1 rest)
       \<and> (\<forall>j<argmax_from 0 x 1 rest. ([x] @ rest) ! j < ([x] @ rest) ! argmax_from 0 x 1 rest)"
    by (rule argmax_from_scan) auto
  then show ?thesis by (simp add: xs argmax_def)
qed

lemma keep_interiors_filter:
  "keep_interiors area_max hs acc0 = acc0 @ filter (\<lambda>h. area_max < ring_area h) hs"
  by (induction hs arbitrary: acc0) auto

lemma mask_row:
  "fold (\<lambda>j ac. mask_cell msk i j ac) [0..<n] ac
     = (\<lambda>i' j'. if i' = i \<and> j' < n \<and> msk i j' = 0 then 0 else ac i' j')"
proof (induction n)
  case 0
  then show ?case by simp
next
  case (Suc n)
  have "fold (\<lambda>j ac. mask_cell msk i j ac) [0..<Suc n] ac
          = mask_cell msk i n (fold (\<lambda>j ac. mask_cell msk i j ac) [0..<n] ac)"
    by simp
  also have "\<dots> = mask_cell msk i n
                     (\<lambda>i' j'. if i' = i \<and> j' < n \<and> msk i j' = 0 then 0 else ac i' j')"
    by (simp only: Suc)
  also have "\<dots> = (\<lambda>i' j'. if i' = i \<and> j' < Suc n \<and> msk i j' = 0 then 0 else ac i' j')"
    by (auto simp: mask_cell_def fun_eq_iff less_Suc_eq)
  finally show ?case .
qed

lemma mask_rows:
  "fold (\<lambda>i ac. fold (\<lambda>j ac. mask_cell msk i j ac) [0..<n] ac) [0..<m] ac
     = (\<lambda>i' j'. if i' < m \<and> j' < n \<and> msk i' j' = 0 then 0 else ac i' j')"
proof (induction m)
  case 0
  then show ?case by simp
next
  case (Suc m)
  have "fold (\<lambda>i ac. fold (\<lambda>j ac. mask_cell msk i j ac) [0..<n] ac) [0..<Suc m] ac
          = fold (\<lambda>j ac. mask_cell msk m j ac) [0..<n]
              (fold (\<lambda>i ac. fold (\<lambda>j ac. mask_cell msk i j ac) [0..<n] ac) [0..<m] ac)"
    by simp
  also have "\<dots> = fold (\<lambda>j ac. mask_cell msk m j ac) [0..<n]
                     (\<lambda>i' j'. if i' < m \<and> j' < n \<and> msk i' j' = 0 then 0 else ac i' j')"
    by (simp only: Suc)
  also have "\<dots> = (\<lambda>i' j'. if i' < Suc m \<and> j' < n \<and> msk i' j' = 0 then 0 else ac i' j')"
    by (auto simp: mask_row fun_eq_iff less_Suc_eq)
  finally show ?case .
qed

lemma acc_mask_accumulation:
  "acc (mask_accumulation g) =
     (\<lambda>i j. if i < fst (shape g) \<and> j < snd (shape g) \<and> mymask g i j = 0 then 0 else acc g i j)"
  by (simp add: mask_accumulation_def mask_rows split: prod.splits)

lemma set_mask_ix:
  "set (mask_ix sh msk) = {(i, j). i < fst sh \<and> j < snd sh \<and> msk i j}"
  by (cases sh) (auto simp: mask_ix_def)

lemma nearest_mem: "nearest aff xy best cs \<in> set (best # cs)"
  by (induction cs arbitrary: best) auto

lemma nearest_le:
  "c \<in> set (best # cs) \<Longrightarrow>
     dist xy (cell_xy aff (nearest aff xy best cs)) \<le> dist xy (cell_xy aff c)"
proof (induction cs arbitrary: best c)
  case Nil
  then show ?case by simp
next
  case (Cons a cs)
  show ?case
  proof (cases "dist xy (cell_xy aff a) < dist xy (cell_xy aff best)")
    case True
    have le: "dist xy (cell_xy aff (nearest aff xy a cs)) \<le> dist xy (cell_xy aff a)"
      using Cons.IH[of a a] by simp
    from Cons.prems consider "c = best" | "c \<in> set (a # cs)" by auto
    then show ?thesis
    proof cases
      case 1
      with le True show ?thesis by simp
    next
      case 2
      with Cons.IH[of c a] True show ?thesis by simp
    qed
  next
    case False
    from Cons.prems consider "c = a" | "c \<in> set (best # cs)" by auto
    then show ?thesis
    proof cases
      case 1
      have "dist xy (cell_xy aff (nearest aff xy best cs)) \<le> dist xy (cell_xy aff best)"
        using Cons.IH[of best best] by simp
      with 1 False show ?thesis by simp
    next
      case 2
      with Cons.IH[of c best] False show ?thesis by simp
    qed
  qed
qed

subsection \<open>The example surrounding, evaluated\<close>

lemma masked_grid_catchment_update [simp]:
  "masked_grid (env\<lparr>catchment := c\<rparr>) basin poly = masked_grid env basin poly"
  by (simp add: masked_grid_def Let_def cong: sum.case_cong prod.case_cong if_cong)

lemma masked_grid_polygonize_update [simp]:
  "masked_grid (env\<lparr>polygonize := pz\<rparr>) basin poly = masked_grid env basin poly"
  by (simp add: masked_grid_def Let_def cong: sum.case_cong prod.case_cong if_cong)

lemma area_A: "area example_part_A = 16 / 1440000"
  by (simp add: area_def ring_area_def example_part_A_def)

lemma area_B: "area example_part_B = 1 / 1440000"
  by (simp add: area_def ring_area_def example_part_B_def)

lemma largest_AB: "largest_part (MultiPolygon [example_part_A, example_part_B]) = Inr example_part_A"
  by (simp add: largest_part_def argmax_def area_A area_B)

lemma str_int_11: "str_int 11 = ''11''"
  by (simp add: str_int_def str_nat.simps)

lemma bounds_A: "bounds example_part_A = Inr (0, 0, 5 / 1200, 5 / 1200)"
  by (simp add: bounds_def example_part_A_def)

lemma masked_grid_example:
  "masked_grid example_env 11 (Polygon example_part_A) = Inr (mask_accumulation example_window)"
  by (simp add: masked_grid_def largest_part_def bounds_A str_int_11 example_env_def example_window_def)

lemma masked_grid_example_multi:
  "masked_grid example_env 11 (MultiPolygon [example_part_A, example_part_B]) = Inr (mask_accumulation example_window)"
  by (simp add: masked_grid_def largest_AB bounds_A str_int_11 example_env_def example_window_def)

lemma mymask_example_22: "mymask (mask_accumulation example_window) 2 2 = 1"
  by (simp add: mask_accumulation_def example_window_def rasterize_centres_def cell_centre_def
      point_in_polygon_def point_in_ring_def edge_crosses_def example_part_A_def)

lemma centre_in_B: "point_in_polygon (cell_centre (affine (mask_accumulation example_window)) (2, 2)) example_part_B"
  by (simp add: mask_accumulation_def example_window_def cell_centre_def
      point_in_polygon_def point_in_ring_def edge_crosses_def example_part_B_def)

lemma lt5: "(i::nat) < 5 \<longleftrightarrow> i = 0 \<or> i = 1 \<or> i = 2 \<or> i = 3 \<or> i = 4"
  by auto

lemma mymask_example_all: "i < 5 \<Longrightarrow> j < 5 \<Longrightarrow> mymask example_window i j = 1"
  unfolding lt5
  by (auto simp add: example_window_def rasterize_centres_def cell_centre_def
      point_in_polygon_def point_in_ring_def edge_crosses_def example_part_A_def field_simps)

lemma shape_example: "shape example_window = (5, 5)"
  by (simp add: example_window_def)

lemma acc_example_window: "acc example_window = (\<lambda>i j. if j = 2 then 1000 * (int i + 1) else 1)"
  by (simp add: example_window_def)

lemma acc_example: "acc (mask_accumulation example_window) = (\<lambda>i j. if j = 2 then 1000 * (int i + 1) else 1)"
  by (rule ext)+ (auto simp: acc_mask_accumulation shape_example mymask_example_all acc_example_window)

lemma shape_masked_example: "shape (mask_accumulation example_window) = (5, 5)"
  by (simp add: mask_accumulation_def example_window_def)

lemma affine_masked_example: "affine (mask_accumulation example_window) = Affine (1 / 1200) 0 0 0 (- (1 / 1200)) (5 / 1200)"
  by (simp add: mask_accumulation_def example_window_def)

lemma upt_0_5: "[0..<5] = [0, 1, 2, 3, 4]"
  by code_simp

lemma mask_ix_example_2000:
  "mask_ix (5, 5) (streams (mask_accumulation example_window) 2000) = [(2, 2), (3, 2), (4, 2)]"
  by (simp add: mask_ix_def streams_def acc_example upt_0_5)

lemma nearest_cell_example:
  "nearest_cell (mask_accumulation example_window) (streams (mask_accumulation example_window) 2000)
      (11 / 6000, 1 / 4000) = Inr (4, 2)"
  by (simp add: nearest_cell_def shape_masked_example mask_ix_example_2000 affine_masked_example
      cell_xy_def dist_def power2_eq_square)

lemma snap_example:
  "snap_pour_point (mask_accumulation example_window) (1 / 4000) (11 / 6000) False
     = Inr ((1 / 600, 1 / 1200), sqrt (53 / 144000000))"
  by (simp add: snap_pour_point_def snap_to_mask_def numpixels_def nearest_cell_example affine_masked_example cell_xy_def dist_def power2_eq_square)

lemma top_success:
  "get_subdivided_merit_polygon example_env ''w1'' 11 (1 / 4000) (11 / 6000) (Polygon example_part_A) False
    = Inr (Some (Polygon \<lparr>exterior = hd (fst example_shape), interiors = []\<rparr>), 1 / 1200 - halfpix, 1 / 600 + halfpix)"
proof -
  have "get_subdivided_merit_polygon example_env ''w1'' 11 (1 / 4000) (11 / 6000) (Polygon example_part_A) False
      = (case try_catchment example_env (mask_accumulation example_window) (1 / 600) (1 / 1200) of
        Inl e \<Rightarrow> Inr (None, 1 / 600, 1 / 1200)
      | Inr cg \<Rightarrow> polygonize_and_return example_env cg (1 / 600) (1 / 1200))"
    by (simp add: get_subdivided_merit_polygon_def masked_grid_example snap_example)
  then show ?thesis
    by (simp add: try_catchment_def polygonize_and_return_def example_env_def example_shape_def)
qed

lemma masked_grid_failing:
  "masked_grid example_env_failing 11 (Polygon example_part_A) = Inr (mask_accumulation example_window)"
  by (simp add: masked_grid_def largest_part_def bounds_A str_int_11 example_env_def example_env_failing_def example_window_def)

lemma top_failure:
  "get_subdivided_merit_polygon example_env_failing ''w1'' 11 (1 / 4000) (11 / 6000) (Polygon example_part_A) False
    = Inr (None, 1 / 600, 1 / 1200)"
proof -
  have "get_subdivided_merit_polygon example_env_failing ''w1'' 11 (1 / 4000) (11 / 6000) (Polygon example_part_A) False
      = (case try_catchment example_env_failing (mask_accumulation example_window) (1 / 600) (1 / 1200) of
        Inl e \<Rightarrow> Inr (None, 1 / 600, 1 / 1200)
      | Inr cg \<Rightarrow> polygonize_and_return example_env_failing cg (1 / 600) (1 / 1200))"
    by (simp add: get_subdivided_merit_polygon_def masked_grid_failing snap_example)
  then show ?thesis
    by (simp add: try_catchment_def example_env_failing_def)
qed

lemma masked_grid_read_raster_dry:
  "masked_grid example_env_dry 11 (Polygon example_part_A)
     = Inr (mask_accumulation example_window_dry)"
  by (simp add: masked_grid_def largest_part_def bounds_A str_int_11
      example_env_def example_env_dry_def example_window_def example_window_dry_def)

lemma shape_example_dry: "shape (mask_accumulation example_window_dry) = (5, 5)"
  by (simp add: mask_accumulation_def example_window_dry_def example_window_def)

lemma dry_no_stream:
  "\<not> numpixels False < acc (mask_accumulation example_window_dry) i j"
  by (simp add: acc_mask_accumulation numpixels_def example_window_dry_def)

lemma mask_ix_dry:
  "mask_ix (shape (mask_accumulation example_window_dry))
     (streams (mask_accumulation example_window_dry) (numpixels False)) = []"
proof -
  have "set (mask_ix (shape (mask_accumulation example_window_dry))
     (streams (mask_accumulation example_window_dry) (numpixels False))) = {}"
    by (simp add: set_mask_ix streams_def dry_no_stream)
  then show ?thesis by simp
qed

lemma masked_grid_no_shapes:
  "masked_grid example_env_no_shapes 11 (Polygon example_part_A)
     = Inr (mask_accumulation example_window)"
  by (simp add: example_env_no_shapes_def masked_grid_example)

lemma sqrt_cell: "sqrt (1 / 1440000) = 1 / 1200"
  by (rule real_sqrt_unique) (simp_all add: power2_eq_square)

lemma upt_0_2: "[0..<2] = [0, 1]"
  by code_simp

lemma acc_example_grid:
  "acc (mask_accumulation example_grid) =
     (\<lambda>i j. if i = 0 \<and> j = 0 then 0 else if i = 1 \<and> j = 1 then 3000
            else if i = 0 \<and> j = 1 then 100 else 1)"
  by (rule ext)+ (auto simp: acc_mask_accumulation example_grid_def)

lemma shape_example_grid: "shape (mask_accumulation example_grid) = (2, 2)"
  by (simp add: mask_accumulation_def example_grid_def)

lemma affine_example_grid:
  "affine (mask_accumulation example_grid) = Affine (1 / 1200) 0 0 0 (- (1 / 1200)) (2 / 1200)"
  by (simp add: mask_accumulation_def example_grid_def)

lemma mask_ix_example_grid_50:
  "mask_ix (2, 2) (streams (mask_accumulation example_grid) 50) = [(0, 1), (1, 1)]"
  by (simp add: mask_ix_def streams_def acc_example_grid upt_0_2)

lemma mask_ix_example_grid_2000:
  "mask_ix (2, 2) (streams (mask_accumulation example_grid) 2000) = [(1, 1)]"
  by (simp add: mask_ix_def streams_def acc_example_grid upt_0_2)

lemma snap_example_grid_50:
  "snap_to_mask (mask_accumulation example_grid) (streams (mask_accumulation example_grid) 50)
     (1 / 1200, 1 / 600) = Inr ((1 / 1200, 1 / 600), 0)"
  by (simp add: snap_to_mask_def nearest_cell_def shape_example_grid affine_example_grid
      mask_ix_example_grid_50 cell_xy_def dist_def power2_eq_square)

lemma snap_example_grid_2000:
  "snap_to_mask (mask_accumulation example_grid) (streams (mask_accumulation example_grid) 2000)
     (1 / 1200, 1 / 600) = Inr ((1 / 1200, 1 / 1200), 1 / 1200)"
  by (simp add: snap_to_mask_def nearest_cell_def shape_example_grid affine_example_grid
      mask_ix_example_grid_2000 cell_xy_def dist_def power2_eq_square sqrt_cell)


section \<open>The stream threshold and the snap\<close>

text \<open>
  C4. The mask handed to the snap marks a cell exactly when its accumulation in the
  masked grid is strictly greater than the threshold, 50 for a watershed of a single
  unit catchment and 2000 otherwise; a cell whose accumulation equals the threshold is
  not marked. The candidates of the snap are the cells of the window that satisfy this,
  and the snap of lines 234-236 is the library's snap on that mask at (lng, lat).
\<close>

theorem stream_cell_iff_exceeds_threshold:
  "(streams g (numpixels bSingleCatchment) i j
      \<longleftrightarrow> (if bSingleCatchment then 50 else 2000) < acc g i j)
 \<and> set (mask_ix (shape g) (streams g (numpixels bSingleCatchment)))
      = {(i, j). i < fst (shape g) \<and> j < snd (shape g)
                 \<and> (if bSingleCatchment then 50 else 2000) < acc g i j}
 \<and> snap_pour_point g lat lng bSingleCatchment
      = snap_to_mask g (\<lambda>i j. (if bSingleCatchment then 50 else 2000) < acc g i j) (lng, lat)"
  by (auto simp: streams_def numpixels_def set_mask_ix snap_pour_point_def)



text \<open>
  C9. On one grid and for one input coordinate, if the snap succeeds under the
  thresholds T1 and T2 with T1 at most T2, the distance achieved under T2 is at least
  the distance achieved under T1.
\<close>

theorem snapping_distance_monotone:
  assumes "T1 \<le> T2"
    and "snap_to_mask g (streams g T1) xy = Inr (p1, d1)"
    and "snap_to_mask g (streams g T2) xy = Inr (p2, d2)"
  shows "d1 \<le> d2"
proof -
  from assms(2) obtain c1 cs1 where
    ix1: "mask_ix (shape g) (streams g T1) = c1 # cs1"
    and d1: "d1 = dist xy (cell_xy (affine g) (nearest (affine g) xy c1 cs1))"
    by (auto simp: snap_to_mask_def nearest_cell_def split: list.splits sum.splits)
  from assms(3) obtain c2 cs2 where
    ix2: "mask_ix (shape g) (streams g T2) = c2 # cs2"
    and d2: "d2 = dist xy (cell_xy (affine g) (nearest (affine g) xy c2 cs2))"
    by (auto simp: snap_to_mask_def nearest_cell_def split: list.splits sum.splits)
  have "nearest (affine g) xy c2 cs2 \<in> set (mask_ix (shape g) (streams g T2))"
    using nearest_mem[of "affine g" xy c2 cs2] ix2 by simp
  then have "nearest (affine g) xy c2 cs2 \<in> set (mask_ix (shape g) (streams g T1))"
    using assms(1) by (auto simp: set_mask_ix streams_def)
  then have "nearest (affine g) xy c2 cs2 \<in> set (c1 # cs1)"
    using ix1 by simp
  then show ?thesis
    unfolding d1 d2 by (rule nearest_le)
qed

text \<open>On the example grid, thresholds 50 and 2000 give the distances 0 and 1/1200.\<close>

theorem snapping_distance_monotone_witness:
  "(50 :: int) \<le> 2000
 \<and> snap_to_mask (mask_accumulation example_grid) (streams (mask_accumulation example_grid) 50)
     (1 / 1200, 1 / 600) = Inr ((1 / 1200, 1 / 600), 0)
 \<and> snap_to_mask (mask_accumulation example_grid) (streams (mask_accumulation example_grid) 2000)
     (1 / 1200, 1 / 600) = Inr ((1 / 1200, 1 / 1200), 1 / 1200)
 \<and> (0 :: real) \<le> 1 / 1200"
proof -
  have le: "(50 :: int) \<le> 2000" by simp
  from snapping_distance_monotone[OF le snap_example_grid_50 snap_example_grid_2000]
  show ?thesis
    using snap_example_grid_50 snap_example_grid_2000 by simp
qed

section \<open>The aligned window\<close>

subsection \<open>Evaluating the rounding\<close>

text \<open>
  Once the binade of a number is known, its double is found by rounding a quotient
  to an integer; the lemmas after \<open>fl_binade\<close> do this for the numbers that occur in
  the window of the box (10.0003, 20.0004, 10.01, 20.01).
\<close>

lemma pow2_powr: "pow2 k = 2 powr (of_int k)"
  by (simp add: pow2_def powr_real_of_int inverse_eq_divide)

lemma pow2_pos: "0 < pow2 k"
  by (simp add: pow2_def)

lemma floor_log2_eq:
  assumes "pow2 e \<le> \<bar>x\<bar>" and "\<bar>x\<bar> < pow2 (e + 1)"
  shows "\<lfloor>log 2 \<bar>x\<bar>\<rfloor> = e"
proof -
  have pos: "0 < \<bar>x\<bar>" using assms(1) pow2_pos[of e] by linarith
  have lo: "of_int e \<le> log 2 \<bar>x\<bar>"
    using assms(1) pos by (simp add: le_log_iff pow2_powr)
  have hi: "log 2 \<bar>x\<bar> < of_int e + 1"
    using assms(2) pos by (simp add: log_less_iff pow2_powr)
  from lo hi show ?thesis by (simp add: floor_eq_iff)
qed

lemma fl_binade:
  assumes "pow2 e \<le> \<bar>x\<bar>" and "\<bar>x\<bar> < pow2 (e + 1)" and "- 1022 \<le> e"
  shows "fl x = of_int (round_half_even (x / pow2 (e - 52))) * pow2 (e - 52)"
proof -
  have "x \<noteq> 0" using assms(1) pow2_pos[of e] by auto
  moreover have "binade x = e"
    using floor_log2_eq[OF assms(1,2)] assms(3) by (simp add: binade_def)
  ultimately show ?thesis by (simp add: fl_def)
qed

lemma fl_halfpix: "fl halfpix = 3843071682823877 / 2 ^ 63"
  unfolding halfpix_def
  using fl_binade[of "-12" "0.0008333333335070341758 / 2"] by (simp add: pow2_def round_half_even_def Let_def)

lemma fl_xmin: "fl 10.0003 = 2814834209599573 / 2 ^ 48"
  using fl_binade[of 3 "10.0003"] by (simp add: pow2_def round_half_even_def Let_def)

lemma fl_xmin_product: "fl (fl 10.0003 * 1200) = 6597267678748999 / 2 ^ 39"
  unfolding fl_xmin
  using fl_binade[of 13 "2814834209599573 / 2 ^ 48 * 1200"] by (simp add: pow2_def round_half_even_def Let_def)

lemma floor_xmin: "\<lfloor>fl (fl 10.0003 * 1200)\<rfloor> = 12000"
  unfolding fl_xmin_product by simp

lemma fl_xmin_cell: "fl (of_int \<lfloor>fl (fl 10.0003 * 1200)\<rfloor> / 1200) = 10"
  unfolding floor_xmin
  using fl_binade[of 3 "of_int 12000 / 1200"] by (simp add: pow2_def round_half_even_def Let_def)

lemma fl_xmin_bound:
  "fl (fl (of_int \<lfloor>fl (fl 10.0003 * 1200)\<rfloor> / 1200) - fl halfpix) = 5629264971732479 / 2 ^ 49"
  unfolding fl_xmin_cell fl_halfpix
  using fl_binade[of 3 "10 - 3843071682823877 / 2 ^ 63"] by (simp add: pow2_def round_half_even_def Let_def)

lemma fl_xmin_printed: "fl 9.999583333333247 = 5629264971732479 / 2 ^ 49"
  using fl_binade[of 3 "9.999583333333247"] by (simp add: pow2_def round_half_even_def Let_def)

lemma fl_ymin: "fl 20.0004 = 1407403031050951 / 2 ^ 46"
  using fl_binade[of 4 "20.0004"] by (simp add: pow2_def round_half_even_def Let_def)

lemma fl_ymin_product: "fl (fl 20.0004 * 1200) = 6597201708051333 / 2 ^ 38"
  unfolding fl_ymin
  using fl_binade[of 14 "1407403031050951 / 2 ^ 46 * 1200"] by (simp add: pow2_def round_half_even_def Let_def)

lemma floor_ymin: "\<lfloor>fl (fl 20.0004 * 1200)\<rfloor> = 24000"
  unfolding fl_ymin_product by simp

lemma fl_ymin_cell: "fl (of_int \<lfloor>fl (fl 20.0004 * 1200)\<rfloor> / 1200) = 20"
  unfolding floor_ymin
  using fl_binade[of 4 "of_int 24000 / 1200"] by (simp add: pow2_def round_half_even_def Let_def)

lemma fl_ymin_bound:
  "fl (fl (of_int \<lfloor>fl (fl 20.0004 * 1200)\<rfloor> / 1200) - fl halfpix) = 5629382252972799 / 2 ^ 48"
  unfolding fl_ymin_cell fl_halfpix
  using fl_binade[of 4 "20 - 3843071682823877 / 2 ^ 63"] by (simp add: pow2_def round_half_even_def Let_def)

lemma fl_ymin_printed: "fl 19.999583333333245 = 5629382252972799 / 2 ^ 48"
  using fl_binade[of 4 "19.999583333333245"] by (simp add: pow2_def round_half_even_def Let_def)

lemma fl_xmax: "fl 10.01 = 5635129033747333 / 2 ^ 49"
  using fl_binade[of 3 "10.01"] by (simp add: pow2_def round_half_even_def Let_def)

lemma fl_xmax_product: "fl (fl 10.01 * 1200) = 12012"
  unfolding fl_xmax
  using fl_binade[of 13 "5635129033747333 / 2 ^ 49 * 1200"] by (simp add: pow2_def round_half_even_def Let_def)

lemma ceil_xmax: "\<lceil>fl (fl 10.01 * 1200)\<rceil> = 12012"
  unfolding fl_xmax_product by simp

lemma fl_xmax_cell: "fl (of_int \<lceil>fl (fl 10.01 * 1200)\<rceil> / 1200) = 5635129033747333 / 2 ^ 49"
  unfolding ceil_xmax
  using fl_binade[of 3 "of_int 12012 / 1200"] by (simp add: pow2_def round_half_even_def Let_def)

lemma fl_xmax_bound:
  "fl (fl (of_int \<lceil>fl (fl 10.01 * 1200)\<rceil> / 1200) + fl halfpix) = 2817681798113987 / 2 ^ 48"
  unfolding fl_xmax_cell fl_halfpix
  using fl_binade[of 3 "5635129033747333 / 2 ^ 49 + 3843071682823877 / 2 ^ 63"] by (simp add: pow2_def round_half_even_def Let_def)

lemma fl_xmax_printed: "fl 10.010416666666753 = 2817681798113987 / 2 ^ 48"
  using fl_binade[of 3 "10.010416666666753"] by (simp add: pow2_def round_half_even_def Let_def)

lemma fl_ymax: "fl 20.01 = 5632314283980227 / 2 ^ 48"
  using fl_binade[of 4 "20.01"] by (simp add: pow2_def round_half_even_def Let_def)

lemma fl_ymax_product: "fl (fl 20.01 * 1200) = 6600368301539329 / 2 ^ 38"
  unfolding fl_ymax
  using fl_binade[of 14 "5632314283980227 / 2 ^ 48 * 1200"] by (simp add: pow2_def round_half_even_def Let_def)

lemma ceil_ymax: "\<lceil>fl (fl 20.01 * 1200)\<rceil> = 24013"
  unfolding fl_ymax_product by simp

lemma fl_ymax_cell: "fl (of_int \<lceil>fl (fl 20.01 * 1200)\<rceil> / 1200) = 5632548846460819 / 2 ^ 48"
  unfolding ceil_ymax
  using fl_binade[of 4 "of_int 24013 / 1200"] by (simp add: pow2_def round_half_even_def Let_def)

lemma fl_ymax_bound:
  "fl (fl (of_int \<lceil>fl (fl 20.01 * 1200)\<rceil> / 1200) + fl halfpix) = 1408166531925285 / 2 ^ 46"
  unfolding fl_ymax_cell fl_halfpix
  using fl_binade[of 4 "5632548846460819 / 2 ^ 48 + 3843071682823877 / 2 ^ 63"] by (simp add: pow2_def round_half_even_def Let_def)

lemma fl_ymax_printed: "fl 20.01125000000009 = 1408166531925285 / 2 ^ 46"
  using fl_binade[of 4 "20.01125000000009"] by (simp add: pow2_def round_half_even_def Let_def)

lemma fl_pixel: "fl (1 / 1200) = 7686143364045647 / 2 ^ 63"
  using fl_binade[of "-11" "1 / 1200"] by (simp add: pow2_def round_half_even_def Let_def)

lemma fl_xmin_claimed:
  "fl (fl (of_int \<lfloor>fl (fl 10.0003 * 1200)\<rfloor> / 1200) - fl (1 / 1200) / 2) = 351829060733283 / 2 ^ 45"
  unfolding fl_xmin_cell fl_pixel
  using fl_binade[of 3 "10 - 7686143364045647 / 2 ^ 63 / 2"] by (simp add: pow2_def round_half_even_def Let_def)

lemma fl_literal: "fl 0.0008333333335070341758 = 3843071682823877 / 2 ^ 62"
  using fl_binade[of "-11" "0.0008333333335070341758"] by (simp add: pow2_def round_half_even_def Let_def)

lemma fl_halfpix_printed: "fl 0.0004166666667535171 = 3843071682823877 / 2 ^ 63"
  using fl_binade[of "-12" "0.0004166666667535171"] by (simp add: pow2_def round_half_even_def Let_def)

lemma fl_half_pixel_printed: "fl 0.0004166666666666667 = 7686143364045647 / 2 ^ 64"
  using fl_binade[of "-12" "0.0004166666666666667"] by (simp add: pow2_def round_half_even_def Let_def)

text \<open>
  The double nearest to 5/1200 lies below 5/1200, yet its product with 1200 rounds to
  5: the floor taken by line 99 is 5, where the floor of the exact product is 4.
\<close>

lemma fl_grid_line: "fl (5 / 1200) = 4803839602528529 / 2 ^ 60"
  using fl_binade[of "-8" "5 / 1200"] by (simp add: pow2_def round_half_even_def Let_def)

lemma floor_rounded_product_at_grid_line:
  "\<lfloor>fl (fl (5 / 1200) * 1200)\<rfloor> = 5 \<and> \<lfloor>fl (5 / 1200) * 1200\<rfloor> = 4"
proof (intro conjI)
  have "fl (fl (5 / 1200) * 1200) = 5"
    unfolding fl_grid_line
    using fl_binade[of 2 "4803839602528529 / 2 ^ 60 * 1200"]
    by (simp add: pow2_def round_half_even_def Let_def)
  then show "\<lfloor>fl (fl (5 / 1200) * 1200)\<rfloor> = 5"
    by (simp only: floor_numeral)
  show "\<lfloor>fl (5 / 1200) * 1200\<rfloor> = 4"
    unfolding fl_grid_line by simp
qed

subsection \<open>The bounds\<close>

lemma bounding_box_unfold:
  "bounding_box (xmin, ymin, xmax, ymax) =
     (fl (fl (of_int \<lfloor>fl (xmin * 1200)\<rfloor> / 1200) - fl halfpix),
      fl (fl (of_int \<lfloor>fl (ymin * 1200)\<rfloor> / 1200) - fl halfpix),
      fl (fl (of_int \<lceil>fl (xmax * 1200)\<rceil> / 1200) + fl halfpix),
      fl (fl (of_int \<lceil>fl (ymax * 1200)\<rceil> / 1200) + fl halfpix))"
  by (simp add: bounding_box_def)

text \<open>
  C3 (as the code has it). For every bounding box of doubles the aligned bounds are
  the minimum corner rounded down and the maximum corner rounded up to multiples of
  1/1200 and moved outward by the half pixel, every operation being rounded to a
  double as the code performs it. The half pixel is half of the double of the literal
  0.0008333333335070341758 of line 90, printed 0.0004166666667535171; it is not half
  of the pixel width 1/1200, printed 0.0004166666666666667, which it exceeds by
  1602107 / 2^64. For the box (10.0003, 20.0004, 10.01, 20.01) the bounds are the
  doubles printed 9.999583333333247, 19.999583333333245, 10.010416666666753 and
  20.01125000000009; the last one stands on 24013/1200, because the product
  20.01 * 1200 rounds to a double above 24012.
\<close>

theorem bounding_box_aligned:
  "bounding_box (xmin, ymin, xmax, ymax) =
     (fl (fl (of_int \<lfloor>fl (xmin * 1200)\<rfloor> / 1200) - fl halfpix),
      fl (fl (of_int \<lfloor>fl (ymin * 1200)\<rfloor> / 1200) - fl halfpix),
      fl (fl (of_int \<lceil>fl (xmax * 1200)\<rceil> / 1200) + fl halfpix),
      fl (fl (of_int \<lceil>fl (ymax * 1200)\<rceil> / 1200) + fl halfpix))
 \<and> fl halfpix = fl 0.0008333333335070341758 / 2
 \<and> fl halfpix = fl 0.0004166666667535171
 \<and> fl (1 / 1200) / 2 = fl 0.0004166666666666667
 \<and> fl halfpix - fl (1 / 1200) / 2 = 1602107 / 2 ^ 64
 \<and> bounding_box (fl 10.0003, fl 20.0004, fl 10.01, fl 20.01) =
     (fl 9.999583333333247, fl 19.999583333333245,
      fl 10.010416666666753, fl 20.01125000000009)"
proof -
  have scenario: "bounding_box (fl 10.0003, fl 20.0004, fl 10.01, fl 20.01) =
     (fl 9.999583333333247, fl 19.999583333333245,
      fl 10.010416666666753, fl 20.01125000000009)"
    unfolding bounding_box_unfold
      fl_xmin_bound fl_ymin_bound fl_xmax_bound fl_ymax_bound
      fl_xmin_printed fl_ymin_printed fl_xmax_printed fl_ymax_printed
    by (rule refl)
  have half: "fl halfpix = fl 0.0008333333335070341758 / 2"
    unfolding fl_halfpix fl_literal by simp
  have printed: "fl halfpix = fl 0.0004166666667535171"
    unfolding fl_halfpix fl_halfpix_printed by (rule refl)
  have pixel: "fl (1 / 1200) / 2 = fl 0.0004166666666666667"
    unfolding fl_pixel fl_half_pixel_printed by simp
  have diff: "fl halfpix - fl (1 / 1200) / 2 = 1602107 / 2 ^ 64"
    unfolding fl_halfpix fl_pixel by simp
  from bounding_box_unfold scenario half printed pixel diff show ?thesis by blast
qed

text \<open>
  With half of the pixel width 1/1200 in place of the half pixel of line 90, the same
  formula gives another left bound for that box (printed 9.999583333333334).
\<close>

theorem bounding_box_halfpix_counterexample:
  "fst (bounding_box (fl 10.0003, fl 20.0004, fl 10.01, fl 20.01))
     \<noteq> fl (fl (of_int \<lfloor>fl (fl 10.0003 * 1200)\<rfloor> / 1200) - fl (1 / 1200) / 2)"
  unfolding bounding_box_unfold fst_conv fl_xmin_bound fl_xmin_claimed by simp

section \<open>The largest part and the holes\<close>

text \<open>
  C6 (as the code has it). Of a MultiPolygon with at least one part, both functions
  keep the part at the first index whose area is the maximum, every earlier part being
  strictly smaller, and go on exactly as they would for that part alone: close_holes
  returns what it returns for that part, and the grid and mask of
  get_subdivided_merit_polygon are those of that part.
\<close>

theorem largest_part_first_maximum:
  assumes "Polygons_multi \<noteq> []"
  shows "\<exists>k. k < length Polygons_multi \<and>
           (\<forall>j<length Polygons_multi. area (Polygons_multi ! j) \<le> area (Polygons_multi ! k))
         \<and> (\<forall>j<k. area (Polygons_multi ! j) < area (Polygons_multi ! k))
         \<and> largest_part (MultiPolygon Polygons_multi) = Inr (Polygons_multi ! k)
         \<and> close_holes (MultiPolygon Polygons_multi) area_max
             = close_holes (Polygon (Polygons_multi ! k)) area_max
         \<and> masked_grid env basin (MultiPolygon Polygons_multi)
             = masked_grid env basin (Polygon (Polygons_multi ! k))"
proof -
  from assms have "map area Polygons_multi \<noteq> []" by simp
  from argmax_first_maximum[OF this] obtain k where
    k: "argmax (map area Polygons_multi) = Inr k" "k < length Polygons_multi"
       "\<forall>j<length Polygons_multi. area (Polygons_multi ! j) \<le> area (Polygons_multi ! k)"
       "\<forall>j<k. area (Polygons_multi ! j) < area (Polygons_multi ! k)"
    by auto
  have lp: "largest_part (MultiPolygon Polygons_multi) = Inr (Polygons_multi ! k)"
    by (simp add: largest_part_def k(1))
  have lp1: "largest_part (Polygon (Polygons_multi ! k)) = Inr (Polygons_multi ! k)"
    by (simp add: largest_part_def)
  have "close_holes (MultiPolygon Polygons_multi) area_max
          = close_holes (Polygon (Polygons_multi ! k)) area_max"
    by (simp only: close_holes_def lp lp1)
  moreover have "masked_grid env basin (MultiPolygon Polygons_multi)
          = masked_grid env basin (Polygon (Polygons_multi ! k))"
    by (simp only: masked_grid_def lp lp1)
  ultimately show ?thesis using k lp by blast
qed

text \<open>The example catchment with its island: the first part is kept.\<close>

theorem largest_part_first_maximum_witness:
  "[example_part_A, example_part_B] \<noteq> []
 \<and> area example_part_B < area example_part_A
 \<and> largest_part (MultiPolygon [example_part_A, example_part_B]) = Inr example_part_A
 \<and> close_holes (MultiPolygon [example_part_A, example_part_B]) 0
      = close_holes (Polygon example_part_A) 0
 \<and> masked_grid example_env 11 (MultiPolygon [example_part_A, example_part_B])
      = masked_grid example_env 11 (Polygon example_part_A)"
proof -
  let ?ps = "[example_part_A, example_part_B]"
  have ne: "?ps \<noteq> []" by simp
  have lt: "area example_part_B < area example_part_A"
    by (simp add: area_A area_B)
  from largest_part_first_maximum[OF ne, of 0 example_env 11] obtain k where
    k: "k < length ?ps" "\<forall>j<length ?ps. area (?ps ! j) \<le> area (?ps ! k)"
       "largest_part (MultiPolygon ?ps) = Inr (?ps ! k)"
       "close_holes (MultiPolygon ?ps) 0 = close_holes (Polygon (?ps ! k)) 0"
       "masked_grid example_env 11 (MultiPolygon ?ps)
          = masked_grid example_env 11 (Polygon (?ps ! k))"
    by blast
  have "k = 0"
  proof (rule ccontr)
    assume "k \<noteq> 0"
    with k(1) have "k = 1" by simp
    moreover have "area (?ps ! 0) \<le> area (?ps ! k)"
      using k(2)[rule_format, of 0] by simp
    ultimately have "area (?ps ! 0) \<le> area (?ps ! 1)" by simp
    with lt show False by simp
  qed
  with k lt show ?thesis by simp
qed

text \<open>
  The mask is rasterized from the exterior ring of the kept part, so the island
  inside its hole is covered: the centre of cell (2, 2) lies in the discarded part
  \<open>example_part_B\<close> and the cell is in the mask.
\<close>

theorem island_part_in_mask_counterexample:
  "largest_part (MultiPolygon [example_part_A, example_part_B]) = Inr example_part_A
 \<and> masked_grid example_env 11 (MultiPolygon [example_part_A, example_part_B])
      = Inr (mask_accumulation example_window)
 \<and> point_in_polygon (cell_centre (affine (mask_accumulation example_window)) (2, 2))
      example_part_B
 \<and> mymask (mask_accumulation example_window) 2 2 = 1"
  using largest_AB masked_grid_example_multi centre_in_B mymask_example_22 by simp

text \<open>
  C7 (as the code has it). For a single polygon close_holes keeps the exterior ring;
  with a threshold other than 0 it keeps, in order and unchanged, exactly the holes
  whose area is strictly greater than the threshold; with the threshold 0 it removes
  every hole.
\<close>

theorem close_holes_single_part:
  "close_holes (Polygon p) area_max =
     Inr \<lparr>exterior = exterior p,
          interiors = (if area_max = 0 then []
                       else filter (\<lambda>h. area_max < ring_area h) (interiors p))\<rparr>"
  by (simp add: close_holes_def largest_part_def keep_interiors_filter)

text \<open>
  With the threshold 0 the hole of \<open>example_part_A\<close>, whose area is above the
  threshold, is removed.
\<close>

theorem close_holes_zero_threshold_counterexample:
  "interiors example_part_A \<noteq> []
 \<and> 0 < ring_area (hd (interiors example_part_A))
 \<and> close_holes (Polygon example_part_A) 0
      = Inr \<lparr>exterior = exterior example_part_A, interiors = []\<rparr>"
  by (simp add: close_holes_def largest_part_def example_part_A_def ring_area_def)

section \<open>The outcomes of get_subdivided_merit_polygon\<close>

text \<open>
  C2 (as the code has it). When no cell of the masked window has an accumulation above
  the threshold, the mask handed to the snap has no True cell, the snap raises
  numpy's IndexError, and that exception leaves get_subdivided_merit_polygon as it
  is: line 236 stands outside the \<^verbatim>\<open>try\<close> block and the source defines no error
  class of its own for this case.
\<close>

theorem no_stream_cells_raises_index_error:
  assumes "masked_grid env basin catchment_poly = Inr g"
    and "\<forall>i<fst (shape g). \<forall>j<snd (shape g). \<not> numpixels bSingleCatchment < acc g i j"
  shows "get_subdivided_merit_polygon env wid basin lat lng catchment_poly bSingleCatchment
           = Inl IndexError_numpy
       \<and> exc_class IndexError_numpy = ''IndexError''"
proof -
  have "set (mask_ix (shape g) (streams g (numpixels bSingleCatchment))) = {}"
    using assms(2) by (auto simp: set_mask_ix streams_def)
  then have "mask_ix (shape g) (streams g (numpixels bSingleCatchment)) = []"
    by simp
  then have "snap_pour_point g lat lng bSingleCatchment = Inl IndexError_numpy"
    by (simp add: snap_pour_point_def snap_to_mask_def nearest_cell_def)
  then show ?thesis
    using assms(1) by (simp add: get_subdivided_merit_polygon_def IndexError_numpy_def)
qed

text \<open>The example surrounding over the raster without a stream.\<close>

theorem no_stream_cells_raises_index_error_witness:
  "masked_grid example_env_dry 11 (Polygon example_part_A)
     = Inr (mask_accumulation example_window_dry)
 \<and> \<not> numpixels False < acc (mask_accumulation example_window_dry) 4 2
 \<and> get_subdivided_merit_polygon example_env_dry ''w1'' 11 (1 / 4000) (11 / 6000)
      (Polygon example_part_A) False = Inl IndexError_numpy"
proof -
  have "\<forall>i<fst (shape (mask_accumulation example_window_dry)).
          \<forall>j<snd (shape (mask_accumulation example_window_dry)).
            \<not> numpixels False < acc (mask_accumulation example_window_dry) i j"
    by (simp add: dry_no_stream)
  from no_stream_cells_raises_index_error[OF masked_grid_read_raster_dry this]
  show ?thesis
    using masked_grid_read_raster_dry dry_no_stream by simp
qed

text \<open>
  There the call ends in an IndexError, whose class is not NoStreamCellsFound.
\<close>

theorem no_stream_cells_error_class_counterexample:
  "mask_ix (shape (mask_accumulation example_window_dry))
     (streams (mask_accumulation example_window_dry) (numpixels False)) = []
 \<and> masked_grid example_env_dry 11 (Polygon example_part_A)
     = Inr (mask_accumulation example_window_dry)
 \<and> get_subdivided_merit_polygon example_env_dry ''w1'' 11 (1 / 4000) (11 / 6000)
      (Polygon example_part_A) False = Inl (Raise ''IndexError'' ''index 0 is out of bounds for axis 0 with size 0'')
 \<and> exc_class (Raise ''IndexError'' ''index 0 is out of bounds for axis 0 with size 0'') \<noteq> ''NoStreamCellsFound''"
proof -
  have "snap_pour_point (mask_accumulation example_window_dry) (1 / 4000) (11 / 6000) False
          = Inl IndexError_numpy"
    by (simp add: snap_pour_point_def snap_to_mask_def nearest_cell_def mask_ix_dry)
  then have "get_subdivided_merit_polygon example_env_dry ''w1'' 11 (1 / 4000) (11 / 6000)
      (Polygon example_part_A) False = Inl IndexError_numpy"
    by (simp add: get_subdivided_merit_polygon_def masked_grid_read_raster_dry)
  then show ?thesis
    using mask_ix_dry masked_grid_read_raster_dry by (simp add: IndexError_numpy_def)
qed

text \<open>
  C8. When the call returns a polygon, the returned longitude is the snapped
  longitude plus \<open>halfpix\<close> and the returned latitude is the snapped latitude minus
  \<open>halfpix\<close>, where the snapped pair is what the snap returned on the masked grid and
  twice \<open>halfpix\<close> is the pixel width 0.0008333333335070341758 of line 90.
\<close>

theorem snapped_coordinate_nudged:
  assumes "get_subdivided_merit_polygon env wid basin lat lng catchment_poly bSingleCatchment
             = Inr (Some P, lat_out, lng_out)"
  shows "\<exists>g lng_snap lat_snap d.
           masked_grid env basin catchment_poly = Inr g
         \<and> snap_pour_point g lat lng bSingleCatchment = Inr ((lng_snap, lat_snap), d)
         \<and> lng_out = lng_snap + halfpix \<and> lat_out = lat_snap - halfpix
         \<and> 2 * halfpix = 0.0008333333335070341758"
  using assms
  by (auto simp: get_subdivided_merit_polygon_def polygonize_and_return_def Let_def halfpix_def
      split: sum.splits prod.splits if_splits list.splits)

text \<open>The example call: the snap gives (1/600, 1/1200), the call returns the nudged pair.\<close>

theorem snapped_coordinate_nudged_witness:
  "get_subdivided_merit_polygon example_env ''w1'' 11 (1 / 4000) (11 / 6000)
      (Polygon example_part_A) False
     = Inr (Some (Polygon \<lparr>exterior = hd (fst example_shape), interiors = []\<rparr>),
            1 / 1200 - halfpix, 1 / 600 + halfpix)
 \<and> (\<exists>g lng_snap lat_snap d.
       masked_grid example_env 11 (Polygon example_part_A) = Inr g
     \<and> snap_pour_point g (1 / 4000) (11 / 6000) False = Inr ((lng_snap, lat_snap), d)
     \<and> 1 / 600 + halfpix = lng_snap + halfpix \<and> 1 / 1200 - halfpix = lat_snap - halfpix)"
  using top_success snapped_coordinate_nudged[OF top_success] by blast

text \<open>
  C10. In a call that reaches the polygonizer: if it yields no shape, the call ends in
  the IndexError of \<^verbatim>\<open>shapely_polygons[0]\<close> (line 317), not in a return; if it
  yields exactly one shape, the call returns the polygon of that shape's first ring.
\<close>

theorem zero_shapes_index_error:
  assumes "masked_grid env basin catchment_poly = Inr g"
    and "snap_pour_point g lat lng bSingleCatchment = Inr ((lng_snap, lat_snap), d)"
    and "try_catchment env g lng_snap lat_snap = Inr cg"
  shows "(polygonize env cg = [] \<longrightarrow>
            get_subdivided_merit_polygon env wid basin lat lng catchment_poly bSingleCatchment
              = Inl IndexError)
       \<and> (\<forall>r rs v. polygonize env cg = [(r # rs, v)] \<longrightarrow>
            get_subdivided_merit_polygon env wid basin lat lng catchment_poly bSingleCatchment
              = Inr (Some (Polygon \<lparr>exterior = r, interiors = []\<rparr>),
                     lat_snap - halfpix, lng_snap + halfpix))"
  using assms
  by (simp add: get_subdivided_merit_polygon_def polygonize_and_return_def)

text \<open>The example surrounding with the polygonizer that finds no shape.\<close>

theorem zero_shapes_index_error_witness:
  "masked_grid example_env_no_shapes 11 (Polygon example_part_A)
     = Inr (mask_accumulation example_window)
 \<and> snap_pour_point (mask_accumulation example_window) (1 / 4000) (11 / 6000) False
     = Inr ((1 / 600, 1 / 1200), sqrt (53 / 144000000))
 \<and> (\<exists>cg. try_catchment example_env_no_shapes (mask_accumulation example_window)
             (1 / 600) (1 / 1200) = Inr cg
         \<and> polygonize example_env_no_shapes cg = [])
 \<and> get_subdivided_merit_polygon example_env_no_shapes ''w1'' 11 (1 / 4000) (11 / 6000)
      (Polygon example_part_A) False = Inl IndexError"
proof -
  obtain cg where cg: "try_catchment example_env_no_shapes (mask_accumulation example_window)
             (1 / 600) (1 / 1200) = Inr cg"
    by (simp add: try_catchment_def example_env_no_shapes_def example_env_def)
  have pz: "polygonize example_env_no_shapes cg = []"
    by (simp add: example_env_no_shapes_def)
  from zero_shapes_index_error[OF masked_grid_no_shapes snap_example cg, of "''w1''"] pz
  have "get_subdivided_merit_polygon example_env_no_shapes ''w1'' 11 (1 / 4000) (11 / 6000)
      (Polygon example_part_A) False = Inl IndexError"
    by blast
  with masked_grid_no_shapes snap_example cg pz show ?thesis by blast
qed

text \<open>
  C1 (the code at a failing traversal). In the example the snap gives longitude 1/600
  and latitude 1/1200. When the traversal raises, the call returns
  (None, 1/600, 1/1200): the longitude stands second and the latitude third, and
  neither is nudged. When the traversal succeeds, the same call returns the polygon
  with the latitude second and the longitude third, both nudged.
\<close>

theorem failed_traversal_returns_lng_before_lat:
  "snap_pour_point (mask_accumulation example_window) (1 / 4000) (11 / 6000) False
     = Inr ((1 / 600, 1 / 1200), sqrt (53 / 144000000))
 \<and> get_subdivided_merit_polygon example_env_failing ''w1'' 11 (1 / 4000) (11 / 6000)
      (Polygon example_part_A) False = Inr (None, 1 / 600, 1 / 1200)
 \<and> get_subdivided_merit_polygon example_env ''w1'' 11 (1 / 4000) (11 / 6000)
      (Polygon example_part_A) False
     = Inr (Some (Polygon \<lparr>exterior = hd (fst example_shape), interiors = []\<rparr>),
            1 / 1200 - halfpix, 1 / 600 + halfpix)"
  using snap_example top_failure top_success by simp

end
